theory Spec2Isabelle
  imports Main "HOL-Library.Dlist"
begin

section \<open>The two tables of storage.py\<close>

text \<open>
  The module declares two mapped classes, \<^verbatim>\<open>Unfollower\<close> (table \<^verbatim>\<open>unfollowers\<close>) and
  \<^verbatim>\<open>TelegramUser\<close> (table \<^verbatim>\<open>telegram_users\<close>). A row is a record of the declared columns.
  The surrogate key column \<^verbatim>\<open>id\<close> of both classes is assigned by the database engine and is
  never read or written by any method of the module; a row's identity is its position in the
  table, and a table is the list of its rows in insertion order. Nothing in the schema makes
  \<^verbatim>\<open>telegram_id\<close> unique (\<^verbatim>\<open>unique=False\<close>), so a table is a list and may hold several rows
  for one user.
\<close>

record Unfollower =
  instagram_author_id :: int
  telegram_author_id :: int
  instagram_unfollower_id :: int

record TelegramUser =
  telegram_id :: int
  instagram_id :: "int option"
  is_notified :: bool
  language :: "string option"

record db =
  unfollowers :: "Unfollower list"
  telegram_users :: "TelegramUser list"

section \<open>Exceptions, the engine and the session\<close>

text \<open>
  Two kinds of exception occur: the \<^verbatim>\<open>AttributeError\<close> of reading an attribute of \<^verbatim>\<open>None\<close>
  (raised and caught in \<^verbatim>\<open>get_instagram_id\<close>), and whatever the database engine raises when a
  statement or the commit fails. The engine is outside the module, so its failures are an
  input: \<open>fail_at = Some (k, msg)\<close> says that the engine call number \<open>k\<close> of the transaction
  (counted from 0) raises \<open>StorageUnavailable msg\<close>, and \<open>None\<close> that the engine never fails.
\<close>

datatype exn = AttributeError | StorageUnavailable string

type_synonym fault = "(nat \<times> string) option"

record session =
  work :: db
  fail_at :: fault

type_synonym 'a tx = "session \<Rightarrow> (exn + 'a) \<times> session"

definition return_tx :: "'a \<Rightarrow> 'a tx" where
  "return_tx a s = (Inr a, s)"

definition raise_tx :: "exn \<Rightarrow> 'a tx" where
  "raise_tx e s = (Inl e, s)"

definition bind_tx :: "'a tx \<Rightarrow> ('a \<Rightarrow> 'b tx) \<Rightarrow> 'b tx" where
  "bind_tx m f s = (case m s of (Inl e, s') \<Rightarrow> (Inl e, s') | (Inr a, s') \<Rightarrow> f a s')"

text \<open>\<^verbatim>\<open>try: m except AttributeError: h\<close>; every other exception passes through.\<close>

definition except_AttributeError :: "'a tx \<Rightarrow> 'a tx \<Rightarrow> 'a tx" where
  "except_AttributeError m h s =
     (case m s of
        (Inl e, s') \<Rightarrow> (if e = AttributeError then h s' else (Inl e, s'))
      | (Inr a, s') \<Rightarrow> (Inr a, s'))"

text \<open>One round trip to the database engine.\<close>

definition engine_call :: "unit tx" where
  "engine_call s =
     (case fail_at s of
        None \<Rightarrow> (Inr (), s)
      | Some (k, msg) \<Rightarrow>
          (case k of
             0 \<Rightarrow> (Inl (StorageUnavailable msg), s)
           | Suc k' \<Rightarrow> (Inr (), s\<lparr>fail_at := Some (k', msg)\<rparr>)))"

subsection \<open>Queries on \<^verbatim>\<open>unfollowers\<close>\<close>

text \<open>\<^verbatim>\<open>session.query(Unfollower).filter_by(...).all()\<close>\<close>

definition unf_all :: "(Unfollower \<Rightarrow> bool) \<Rightarrow> Unfollower list tx" where
  "unf_all P = bind_tx engine_call (\<lambda>_ s. (Inr (filter P (unfollowers (work s))), s))"

text \<open>\<^verbatim>\<open>session.query(Unfollower).filter_by(...).delete()\<close>\<close>

definition unf_delete :: "(Unfollower \<Rightarrow> bool) \<Rightarrow> unit tx" where
  "unf_delete P = bind_tx engine_call (\<lambda>_ s.
     (Inr (), s\<lparr>work := (work s)\<lparr>unfollowers := filter (\<lambda>r. \<not> P r) (unfollowers (work s))\<rparr>\<rparr>))"

text \<open>\<^verbatim>\<open>session.bulk_save_objects(rows)\<close>\<close>

definition bulk_save_objects :: "Unfollower list \<Rightarrow> unit tx" where
  "bulk_save_objects rows = bind_tx engine_call (\<lambda>_ s.
     (Inr (), s\<lparr>work := (work s)\<lparr>unfollowers := unfollowers (work s) @ rows\<rparr>\<rparr>))"

subsection \<open>Queries on \<^verbatim>\<open>telegram_users\<close>\<close>

text \<open>
  A mapped object is the pair of the row's identity (its position) and the attribute values
  loaded from it. \<^verbatim>\<open>.first()\<close> gives the first matching row or \<^verbatim>\<open>None\<close>.
\<close>

fun first_row :: "('a \<Rightarrow> bool) \<Rightarrow> 'a list \<Rightarrow> (nat \<times> 'a) option" where
  "first_row P [] = None"
| "first_row P (x # xs) =
     (if P x then Some (0, x) else map_option (\<lambda>(i, y). (Suc i, y)) (first_row P xs))"

fun update_at :: "nat \<Rightarrow> ('a \<Rightarrow> 'a) \<Rightarrow> 'a list \<Rightarrow> 'a list" where
  "update_at i f [] = []"
| "update_at 0 f (x # xs) = f x # xs"
| "update_at (Suc i) f (x # xs) = x # update_at i f xs"

text \<open>\<^verbatim>\<open>session.query(TelegramUser).filter_by(...).first()\<close>\<close>

definition tg_first :: "(TelegramUser \<Rightarrow> bool) \<Rightarrow> (nat \<times> TelegramUser) option tx" where
  "tg_first P = bind_tx engine_call (\<lambda>_ s. (Inr (first_row P (telegram_users (work s))), s))"

text \<open>\<^verbatim>\<open>session.query(TelegramUser).filter_by(...).all()\<close>\<close>

definition tg_all :: "(TelegramUser \<Rightarrow> bool) \<Rightarrow> TelegramUser list tx" where
  "tg_all P = bind_tx engine_call (\<lambda>_ s. (Inr (filter P (telegram_users (work s))), s))"

text \<open>
  \<^verbatim>\<open>session.add(obj)\<close>: the new row is pending in the session (no engine call before the
  commit flushes it); the result is the new object's identity.
\<close>

definition tg_add :: "TelegramUser \<Rightarrow> nat tx" where
  "tg_add row s =
     (Inr (length (telegram_users (work s))),
      s\<lparr>work := (work s)\<lparr>telegram_users := telegram_users (work s) @ [row]\<rparr>\<rparr>)"

text \<open>An attribute assignment \<^verbatim>\<open>obj.attr = v\<close> on the object with identity \<open>h\<close>.\<close>

definition tg_set :: "nat \<Rightarrow> (TelegramUser \<Rightarrow> TelegramUser) \<Rightarrow> unit tx" where
  "tg_set h f s =
     (Inr (), s\<lparr>work := (work s)\<lparr>telegram_users := update_at h f (telegram_users (work s))\<rparr>\<rparr>)"

text \<open>
  The constructor \<^verbatim>\<open>TelegramUser(telegram_id=..., instagram_id=...)\<close>: a column that is not
  given takes its declared default (\<^verbatim>\<open>is_notified\<close>: \<^verbatim>\<open>False\<close>, \<^verbatim>\<open>language\<close>: \<^verbatim>\<open>None\<close>) or, being
  nullable without a default, \<^verbatim>\<open>NULL\<close> (\<^verbatim>\<open>instagram_id\<close>).
\<close>

definition new_TelegramUser :: "int \<Rightarrow> int option \<Rightarrow> TelegramUser" where
  "new_TelegramUser tid iid =
     \<lparr>telegram_id = tid, instagram_id = iid, is_notified = False, language = None\<rparr>"

section \<open>\<^verbatim>\<open>session_scope\<close>\<close>

text \<open>
  The storage is the committed content of the database together with the number of sessions
  that are open. \<^verbatim>\<open>session.commit()\<close> is one more engine call, which makes the session's work
  the committed content; \<^verbatim>\<open>session.rollback()\<close> drops the session's work and leaves the
  committed content as it is; \<^verbatim>\<open>session.close()\<close> releases the session. Rollback and close are
  taken not to fail.
\<close>

record storage =
  committed :: db
  open_sessions :: nat

definition Session :: "fault \<Rightarrow> storage \<Rightarrow> session \<times> storage" where
  "Session fault st =
     (\<lparr>work = committed st, fail_at = fault\<rparr>, st\<lparr>open_sessions := Suc (open_sessions st)\<rparr>)"

definition commit :: "session \<Rightarrow> storage \<Rightarrow> (exn + unit) \<times> storage" where
  "commit s st =
     (case engine_call s of
        (Inl e, s') \<Rightarrow> (Inl e, st)
      | (Inr u, s') \<Rightarrow> (Inr (), st\<lparr>committed := work s'\<rparr>))"

definition rollback :: "session \<Rightarrow> storage \<Rightarrow> storage" where
  "rollback s st = st"

definition close :: "session \<Rightarrow> storage \<Rightarrow> storage" where
  "close s st = st\<lparr>open_sessions := open_sessions st - 1\<rparr>"

text \<open>
  \<^verbatim>\<open>
  session = Session()
  try:
      yield session
      session.commit()
  except Exception as e:
      session.rollback()
      raise e
  finally:
      session.close()
  \<close>
\<close>

definition session_scope :: "'a tx \<Rightarrow> fault \<Rightarrow> storage \<Rightarrow> (exn + 'a) \<times> storage" where
  "session_scope body fault st =
     (case Session fault st of (s0, st0) \<Rightarrow>
        (case body s0 of
           (Inl e, s1) \<Rightarrow> (Inl e, close s1 (rollback s1 st0))
         | (Inr r, s1) \<Rightarrow>
             (case commit s1 st0 of
                (Inl e, st1) \<Rightarrow> (Inl e, close s1 (rollback s1 st1))
              | (Inr u, st1) \<Rightarrow> (Inr r, close s1 st1))))"

section \<open>The methods of \<^verbatim>\<open>UnfollowersStorage\<close>\<close>

text \<open>
  The argument \<^verbatim>\<open>unfollower_ids\<close> is a Python set: its elements in the order the
  comprehension iterates over them, without repetition, that is a \<open>dlist\<close>.
\<close>

definition get_known_unfollowers :: "int \<Rightarrow> fault \<Rightarrow> storage \<Rightarrow> (exn + int set) \<times> storage" where
  "get_known_unfollowers tid =
     session_scope
       (bind_tx (unf_all (\<lambda>r. telegram_author_id r = tid)) (\<lambda>rows.
        return_tx (set (map instagram_unfollower_id rows))))"

definition update_known_unfollowers ::
    "int \<Rightarrow> int \<Rightarrow> int dlist \<Rightarrow> fault \<Rightarrow> storage \<Rightarrow> (exn + unit) \<times> storage" where
  "update_known_unfollowers tid iid unfollower_ids =
     session_scope
       (bind_tx (unf_delete (\<lambda>r. telegram_author_id r = tid \<and> instagram_author_id r = iid)) (\<lambda>_.
        bulk_save_objects
          (map (\<lambda>unfollower_id.
                  \<lparr>instagram_author_id = iid, telegram_author_id = tid,
                   instagram_unfollower_id = unfollower_id\<rparr>)
               (list_of_dlist unfollower_ids))))"

definition get_instagram_id :: "int \<Rightarrow> fault \<Rightarrow> storage \<Rightarrow> (exn + int option) \<times> storage" where
  "get_instagram_id tid =
     session_scope
       (except_AttributeError
          (bind_tx (tg_first (\<lambda>r. telegram_id r = tid)) (\<lambda>tg_user.
             case tg_user of
               None \<Rightarrow> raise_tx AttributeError
             | Some (h, row) \<Rightarrow> return_tx (instagram_id row)))
          (return_tx None))"

definition update_instagram_id :: "int \<Rightarrow> int \<Rightarrow> fault \<Rightarrow> storage \<Rightarrow> (exn + unit) \<times> storage" where
  "update_instagram_id tid iid =
     session_scope
       (bind_tx (tg_first (\<lambda>r. telegram_id r = tid)) (\<lambda>tg_user.
          case tg_user of
            None \<Rightarrow> bind_tx (tg_add (new_TelegramUser tid (Some iid))) (\<lambda>_. return_tx ())
          | Some (h, row) \<Rightarrow> tg_set h (\<lambda>r. r\<lparr>instagram_id := Some iid\<rparr>)))"

definition start_notifying :: "int \<Rightarrow> fault \<Rightarrow> storage \<Rightarrow> (exn + bool) \<times> storage" where
  "start_notifying tid =
     session_scope
       (bind_tx (tg_first (\<lambda>r. telegram_id r = tid)) (\<lambda>tg_user.
          case tg_user of
            None \<Rightarrow> return_tx False
          | Some (h, row) \<Rightarrow>
              bind_tx (tg_set h (\<lambda>r. r\<lparr>is_notified := True\<rparr>)) (\<lambda>_. return_tx True)))"

definition stop_notifying :: "int \<Rightarrow> fault \<Rightarrow> storage \<Rightarrow> (exn + bool) \<times> storage" where
  "stop_notifying tid =
     session_scope
       (bind_tx (tg_first (\<lambda>r. telegram_id r = tid)) (\<lambda>tg_user.
          case tg_user of
            None \<Rightarrow> return_tx False
          | Some (h, row) \<Rightarrow>
              bind_tx (tg_set h (\<lambda>r. r\<lparr>is_notified := False\<rparr>)) (\<lambda>_. return_tx True)))"

definition get_notified_telegram_ids :: "fault \<Rightarrow> storage \<Rightarrow> (exn + int set) \<times> storage" where
  "get_notified_telegram_ids =
     session_scope
       (bind_tx (tg_all (\<lambda>r. is_notified r = True)) (\<lambda>users.
        return_tx (set (map telegram_id users))))"

definition get_language :: "int \<Rightarrow> fault \<Rightarrow> storage \<Rightarrow> (exn + string option) \<times> storage" where
  "get_language tid =
     session_scope
       (bind_tx (tg_first (\<lambda>r. telegram_id r = tid)) (\<lambda>user.
          case user of
            Some (h, row) \<Rightarrow> return_tx (language row)
          | None \<Rightarrow> return_tx None))"

definition set_language :: "int \<Rightarrow> string option \<Rightarrow> fault \<Rightarrow> storage \<Rightarrow> (exn + unit) \<times> storage" where
  "set_language tid lang =
     session_scope
       (bind_tx (tg_first (\<lambda>r. telegram_id r = tid)) (\<lambda>user.
        bind_tx (case user of
                   None \<Rightarrow> tg_add (new_TelegramUser tid None)
                 | Some (h, row) \<Rightarrow> return_tx h) (\<lambda>h.
        tg_set h (\<lambda>r. r\<lparr>language := lang\<rparr>))))"

text \<open>The database right after \<^verbatim>\<open>create_all\<close> on a new file: both tables empty.\<close>

definition empty_storage :: storage where
  "empty_storage = \<lparr>committed = \<lparr>unfollowers = [], telegram_users = []\<rparr>, open_sessions = 0\<rparr>"

text \<open>
  A call of one of the nine methods, and what it returns. \<open>run\<close> makes the calls of a list one
  after the other, each with the engine faults it meets.
\<close>

datatype call =
    GetKnownUnfollowers int
  | UpdateKnownUnfollowers int int "int dlist"
  | GetInstagramId int
  | UpdateInstagramId int int
  | StartNotifying int
  | StopNotifying int
  | GetNotifiedTelegramIds
  | GetLanguage int
  | SetLanguage int "string option"

datatype retval =
    RNone
  | RSet "int set"
  | RInt "int option"
  | RBool bool
  | RStr "string option"

fun perform :: "call \<Rightarrow> fault \<Rightarrow> storage \<Rightarrow> (exn + retval) \<times> storage" where
  "perform (GetKnownUnfollowers t) f st = apfst (map_sum id RSet) (get_known_unfollowers t f st)"
| "perform (UpdateKnownUnfollowers t i ids) f st =
     apfst (map_sum id (\<lambda>_. RNone)) (update_known_unfollowers t i ids f st)"
| "perform (GetInstagramId t) f st = apfst (map_sum id RInt) (get_instagram_id t f st)"
| "perform (UpdateInstagramId t i) f st =
     apfst (map_sum id (\<lambda>_. RNone)) (update_instagram_id t i f st)"
| "perform (StartNotifying t) f st = apfst (map_sum id RBool) (start_notifying t f st)"
| "perform (StopNotifying t) f st = apfst (map_sum id RBool) (stop_notifying t f st)"
| "perform GetNotifiedTelegramIds f st = apfst (map_sum id RSet) (get_notified_telegram_ids f st)"
| "perform (GetLanguage t) f st = apfst (map_sum id RStr) (get_language t f st)"
| "perform (SetLanguage t l) f st = apfst (map_sum id (\<lambda>_. RNone)) (set_language t l f st)"

fun run :: "(call \<times> fault) list \<Rightarrow> storage \<Rightarrow> storage" where
  "run [] st = st"
| "run ((c, f) # cs) st = run cs (snd (perform c f st))"

text \<open>The data model's invariant: at most one \<^verbatim>\<open>telegram_users\<close> row for a \<^verbatim>\<open>telegram_id\<close>.\<close>

definition unique_users :: "db \<Rightarrow> bool" where
  "unique_users d \<longleftrightarrow> distinct (map telegram_id (telegram_users d))"

section \<open>Rows and their identities\<close>

lemmas tx_defs = return_tx_def raise_tx_def bind_tx_def except_AttributeError_def engine_call_def
  unf_all_def unf_delete_def bulk_save_objects_def tg_first_def tg_all_def tg_add_def tg_set_def
  Session_def commit_def rollback_def close_def session_scope_def

lemma first_row_None: "first_row P xs = None \<longleftrightarrow> (\<forall>x \<in> set xs. \<not> P x)"
  by (induction xs) auto

lemma first_row_Some:
  "first_row P xs = Some (h, r) \<Longrightarrow>
     h < length xs \<and> xs ! h = r \<and> P r \<and> (\<forall>j < h. \<not> P (xs ! j))"
proof (induction xs arbitrary: h)
  case Nil
  then show ?case by simp
next
  case (Cons x xs)
  show ?case
  proof (cases "P x")
    case True
    with Cons.prems show ?thesis by simp
  next
    case False
    with Cons.prems obtain i where i: "first_row P xs = Some (i, r)" and h: "h = Suc i"
      by auto
    from Cons.IH [OF i] False h show ?thesis
      by (auto simp: nth_Cons split: nat.splits)
  qed
qed

lemma update_at_eq: "update_at h f xs = (if h < length xs then xs[h := f (xs ! h)] else xs)"
  by (induction h f xs rule: update_at.induct) auto

section \<open>What each method does when the engine does not fail\<close>

lemma get_known_unfollowers_ok:
  "get_known_unfollowers t None st =
     (Inr (instagram_unfollower_id `
             {r \<in> set (unfollowers (committed st)). telegram_author_id r = t}), st)"
  by (simp add: get_known_unfollowers_def tx_defs)

lemma update_known_unfollowers_ok:
  "update_known_unfollowers t i ids None st =
     (Inr (), st\<lparr>committed := (committed st)\<lparr>unfollowers :=
        filter (\<lambda>r. \<not> (telegram_author_id r = t \<and> instagram_author_id r = i))
          (unfollowers (committed st)) @
        map (\<lambda>u. \<lparr>instagram_author_id = i, telegram_author_id = t,
                   instagram_unfollower_id = u\<rparr>) (list_of_dlist ids)\<rparr>\<rparr>)"
  by (simp add: update_known_unfollowers_def tx_defs)

lemma get_instagram_id_ok:
  "get_instagram_id t None st =
     (Inr (case first_row (\<lambda>r. telegram_id r = t) (telegram_users (committed st)) of
             None \<Rightarrow> None
           | Some (h, row) \<Rightarrow> instagram_id row), st)"
  by (auto simp add: get_instagram_id_def tx_defs split: option.splits)

lemma update_instagram_id_ok:
  "update_instagram_id t i None st =
     (Inr (), st\<lparr>committed := (committed st)\<lparr>telegram_users :=
        (case first_row (\<lambda>r. telegram_id r = t) (telegram_users (committed st)) of
           None \<Rightarrow> telegram_users (committed st) @ [new_TelegramUser t (Some i)]
         | Some (h, row) \<Rightarrow>
             (telegram_users (committed st))[h := row\<lparr>instagram_id := Some i\<rparr>])\<rparr>\<rparr>)"
  by (auto simp add: update_instagram_id_def tx_defs update_at_eq split: option.splits
           dest: first_row_Some)

lemma start_notifying_ok:
  "start_notifying t None st =
     (case first_row (\<lambda>r. telegram_id r = t) (telegram_users (committed st)) of
        None \<Rightarrow> (Inr False, st)
      | Some (h, row) \<Rightarrow>
          (Inr True, st\<lparr>committed := (committed st)\<lparr>telegram_users :=
             (telegram_users (committed st))[h := row\<lparr>is_notified := True\<rparr>]\<rparr>\<rparr>))"
  by (auto simp add: start_notifying_def tx_defs update_at_eq split: option.splits
           dest: first_row_Some)

lemma stop_notifying_ok:
  "stop_notifying t None st =
     (case first_row (\<lambda>r. telegram_id r = t) (telegram_users (committed st)) of
        None \<Rightarrow> (Inr False, st)
      | Some (h, row) \<Rightarrow>
          (Inr True, st\<lparr>committed := (committed st)\<lparr>telegram_users :=
             (telegram_users (committed st))[h := row\<lparr>is_notified := False\<rparr>]\<rparr>\<rparr>))"
  by (auto simp add: stop_notifying_def tx_defs update_at_eq split: option.splits
           dest: first_row_Some)

lemma get_notified_telegram_ids_ok:
  "get_notified_telegram_ids None st =
     (Inr (telegram_id ` {r \<in> set (telegram_users (committed st)). is_notified r}), st)"
  by (simp add: get_notified_telegram_ids_def tx_defs)

lemma get_language_ok:
  "get_language t None st =
     (Inr (case first_row (\<lambda>r. telegram_id r = t) (telegram_users (committed st)) of
             None \<Rightarrow> None
           | Some (h, row) \<Rightarrow> language row), st)"
  by (auto simp add: get_language_def tx_defs split: option.splits)

lemma set_language_ok:
  "set_language t l None st =
     (Inr (), st\<lparr>committed := (committed st)\<lparr>telegram_users :=
        (case first_row (\<lambda>r. telegram_id r = t) (telegram_users (committed st)) of
           None \<Rightarrow> telegram_users (committed st) @ [(new_TelegramUser t None)\<lparr>language := l\<rparr>]
         | Some (h, row) \<Rightarrow> (telegram_users (committed st))[h := row\<lparr>language := l\<rparr>])\<rparr>\<rparr>)"
  by (auto simp add: set_language_def tx_defs update_at_eq split: option.splits
           dest: first_row_Some)

section \<open>Replacing and reading the known unfollowers\<close>

lemma filter_pair_new:
  "filter (\<lambda>r. telegram_author_id r = u \<and> instagram_author_id r = a)
     (map (\<lambda>x. \<lparr>instagram_author_id = a, telegram_author_id = u,
                instagram_unfollower_id = x\<rparr>) xs)
   = map (\<lambda>x. \<lparr>instagram_author_id = a, telegram_author_id = u,
                instagram_unfollower_id = x\<rparr>) xs"
  by (induction xs) auto

lemma filter_not_pair_new:
  "filter (\<lambda>r. \<not> (telegram_author_id r = u \<and> instagram_author_id r = a))
     (map (\<lambda>x. \<lparr>instagram_author_id = a, telegram_author_id = u,
                instagram_unfollower_id = x\<rparr>) xs)
   = []"
  by (induction xs) auto

lemma filter_pair_not_pair:
  "filter (\<lambda>r. telegram_author_id r = u \<and> instagram_author_id r = a)
     (filter (\<lambda>r. \<not> (telegram_author_id r = u \<and> instagram_author_id r = a)) rows) = []"
  by (induction rows) auto

lemma distinct_new_rows:
  "distinct (map (\<lambda>x. \<lparr>instagram_author_id = a, telegram_author_id = u,
                       instagram_unfollower_id = x\<rparr>) xs) = distinct xs"
  by (simp add: distinct_map inj_on_def)

text \<open>
  C1. After \<^verbatim>\<open>update_known_unfollowers(u, a, S)\<close> (the engine not failing) the rows of the pair
  \<open>(u, a)\<close> are exactly one row \<open>(a, u, x)\<close> for each \<open>x\<close> of \<open>S\<close>, whatever rows the pair had
  before; the rows of every other pair are the ones they were, in the same order; the
  \<^verbatim>\<open>telegram_users\<close> table is untouched; and with the empty set the call only deletes, leaving
  the pair without rows.
\<close>

theorem update_known_unfollowers_replaces_pair:
  "(let st' = snd (update_known_unfollowers u a S None st);
        rows = unfollowers (committed st);
        rows' = unfollowers (committed st');
        is_pair = (\<lambda>r. telegram_author_id r = u \<and> instagram_author_id r = a)
    in fst (update_known_unfollowers u a S None st) = Inr ()
     \<and> filter is_pair rows' =
         map (\<lambda>x. \<lparr>instagram_author_id = a, telegram_author_id = u,
                    instagram_unfollower_id = x\<rparr>) (list_of_dlist S)
     \<and> distinct (filter is_pair rows')
     \<and> filter (\<lambda>r. \<not> is_pair r) rows' = filter (\<lambda>r. \<not> is_pair r) rows
     \<and> telegram_users (committed st') = telegram_users (committed st)
     \<and> open_sessions st' = open_sessions st)
   \<and> (let st0 = snd (update_known_unfollowers u a Dlist.empty None st);
          is_pair = (\<lambda>r. telegram_author_id r = u \<and> instagram_author_id r = a)
      in unfollowers (committed st0) = filter (\<lambda>r. \<not> is_pair r) (unfollowers (committed st))
       \<and> filter is_pair (unfollowers (committed st0)) = [])"
  by (simp add: update_known_unfollowers_ok Let_def filter_pair_new filter_not_pair_new
        filter_pair_not_pair distinct_new_rows)

text \<open>
  C2. \<^verbatim>\<open>get_known_unfollowers(u)\<close> (the engine not failing) returns the set of the
  \<^verbatim>\<open>instagram_unfollower_id\<close> of all rows whose \<^verbatim>\<open>telegram_author_id\<close> is \<open>u\<close>, that is the
  union over every monitored account \<open>a\<close> of the ids of the pair \<open>(u, a)\<close>; it changes nothing;
  and for a user without rows it returns the empty set, not an error.
\<close>

theorem get_known_unfollowers_is_union:
  "get_known_unfollowers u None st =
     (Inr (instagram_unfollower_id `
             {r \<in> set (unfollowers (committed st)). telegram_author_id r = u}), st)
   \<and> fst (get_known_unfollowers u None st) =
       Inr (\<Union>a. instagram_unfollower_id `
                  {r \<in> set (unfollowers (committed st)).
                     telegram_author_id r = u \<and> instagram_author_id r = a})
   \<and> (u \<notin> set (map telegram_author_id (unfollowers (committed st))) \<longrightarrow>
        get_known_unfollowers u None st = (Inr {}, st))"
  by (auto simp add: get_known_unfollowers_ok)

theorem get_known_unfollowers_is_union_witness:
  "7 \<notin> set (map telegram_author_id (unfollowers (committed
      (run [(UpdateKnownUnfollowers 1 10 (dlist_of_list [100, 101]), None)] empty_storage))))
   \<and> get_known_unfollowers 7 None
       (run [(UpdateKnownUnfollowers 1 10 (dlist_of_list [100, 101]), None)] empty_storage) =
     (Inr {}, run [(UpdateKnownUnfollowers 1 10 (dlist_of_list [100, 101]), None)] empty_storage)"
proof -
  have h: "7 \<notin> set (map telegram_author_id (unfollowers (committed
      (run [(UpdateKnownUnfollowers 1 10 (dlist_of_list [100, 101]), None)] empty_storage))))"
    by (simp add: update_known_unfollowers_ok empty_storage_def)
  from h get_known_unfollowers_is_union
    [of 7 "run [(UpdateKnownUnfollowers 1 10 (dlist_of_list [100, 101]), None)] empty_storage"]
  show ?thesis by blast
qed

text \<open>
  C8. Making the same \<^verbatim>\<open>update_known_unfollowers(u, a, S)\<close> call a second time gives the
  storage and the result of the first call, so \<^verbatim>\<open>get_known_unfollowers(u)\<close> answers the same
  after one call and after two, and the pair \<open>(u, a)\<close> holds no row twice.
\<close>

theorem update_known_unfollowers_idempotent:
  "(let once = snd (update_known_unfollowers u a S None st);
        twice = snd (update_known_unfollowers u a S None once)
    in update_known_unfollowers u a S None once = update_known_unfollowers u a S None st
     \<and> twice = once
     \<and> get_known_unfollowers u None twice = get_known_unfollowers u None once
     \<and> distinct (filter (\<lambda>r. telegram_author_id r = u \<and> instagram_author_id r = a)
                  (unfollowers (committed twice))))"
  by (simp add: update_known_unfollowers_ok Let_def filter_pair_new filter_not_pair_new
        filter_pair_not_pair distinct_new_rows)

section \<open>Engine failures: all or nothing\<close>

text \<open>
  Whatever engine call fails, a method either behaves as if the engine had not failed, or
  raises the engine's exception and leaves the storage as it was.
\<close>

lemma update_known_unfollowers_fault:
  "update_known_unfollowers t i ids f st = update_known_unfollowers t i ids None st \<or>
   (\<exists>k msg. f = Some (k, msg) \<and> update_known_unfollowers t i ids f st = (Inl (StorageUnavailable msg), st))"
  by (cases f) (auto simp add: update_known_unfollowers_def tx_defs split: nat.splits)

lemma get_known_unfollowers_fault:
  "get_known_unfollowers t f st = get_known_unfollowers t None st \<or>
   (\<exists>k msg. f = Some (k, msg) \<and> get_known_unfollowers t f st = (Inl (StorageUnavailable msg), st))"
  by (cases f) (auto simp add: get_known_unfollowers_def tx_defs split: nat.splits)

lemma get_instagram_id_fault:
  "get_instagram_id t f st = get_instagram_id t None st \<or>
   (\<exists>k msg. f = Some (k, msg) \<and> get_instagram_id t f st = (Inl (StorageUnavailable msg), st))"
  by (cases f) (auto simp add: get_instagram_id_def tx_defs split: nat.splits option.splits)

lemma update_instagram_id_fault:
  "update_instagram_id t i f st = update_instagram_id t i None st \<or>
   (\<exists>k msg. f = Some (k, msg) \<and> update_instagram_id t i f st = (Inl (StorageUnavailable msg), st))"
  by (cases f) (auto simp add: update_instagram_id_def tx_defs split: nat.splits option.splits)

lemma start_notifying_fault:
  "start_notifying t f st = start_notifying t None st \<or>
   (\<exists>k msg. f = Some (k, msg) \<and> start_notifying t f st = (Inl (StorageUnavailable msg), st))"
  by (cases f) (auto simp add: start_notifying_def tx_defs split: nat.splits option.splits)

lemma stop_notifying_fault:
  "stop_notifying t f st = stop_notifying t None st \<or>
   (\<exists>k msg. f = Some (k, msg) \<and> stop_notifying t f st = (Inl (StorageUnavailable msg), st))"
  by (cases f) (auto simp add: stop_notifying_def tx_defs split: nat.splits option.splits)

lemma get_notified_telegram_ids_fault:
  "get_notified_telegram_ids f st = get_notified_telegram_ids None st \<or>
   (\<exists>k msg. f = Some (k, msg) \<and> get_notified_telegram_ids f st = (Inl (StorageUnavailable msg), st))"
  by (cases f) (auto simp add: get_notified_telegram_ids_def tx_defs split: nat.splits)

lemma get_language_fault:
  "get_language t f st = get_language t None st \<or>
   (\<exists>k msg. f = Some (k, msg) \<and> get_language t f st = (Inl (StorageUnavailable msg), st))"
  by (cases f) (auto simp add: get_language_def tx_defs split: nat.splits option.splits)

lemma set_language_fault:
  "set_language t l f st = set_language t l None st \<or>
   (\<exists>k msg. f = Some (k, msg) \<and> set_language t l f st = (Inl (StorageUnavailable msg), st))"
  by (cases f) (auto simp add: set_language_def tx_defs split: nat.splits option.splits)

lemma perform_fault:
  "perform c f st = perform c None st \<or>
   (\<exists>k msg. f = Some (k, msg) \<and> perform c f st = (Inl (StorageUnavailable msg), st))"
proof (cases c)
  case (GetKnownUnfollowers t)
  with get_known_unfollowers_fault [of t f st] show ?thesis by auto
next
  case (UpdateKnownUnfollowers t i ids)
  with update_known_unfollowers_fault [of t i ids f st] show ?thesis by auto
next
  case (GetInstagramId t)
  with get_instagram_id_fault [of t f st] show ?thesis by auto
next
  case (UpdateInstagramId t i)
  with update_instagram_id_fault [of t i f st] show ?thesis by auto
next
  case (StartNotifying t)
  with start_notifying_fault [of t f st] show ?thesis by auto
next
  case (StopNotifying t)
  with stop_notifying_fault [of t f st] show ?thesis by auto
next
  case GetNotifiedTelegramIds
  with get_notified_telegram_ids_fault [of f st] show ?thesis by auto
next
  case (GetLanguage t)
  with get_language_fault [of t f st] show ?thesis by auto
next
  case (SetLanguage t l)
  with set_language_fault [of t l f st] show ?thesis by auto
qed

lemma perform_ok_Inr: "\<exists>r. fst (perform c None st) = Inr r"
  by (cases c)
    (auto simp add: get_known_unfollowers_ok update_known_unfollowers_ok get_instagram_id_ok
       update_instagram_id_ok start_notifying_ok stop_notifying_ok get_notified_telegram_ids_ok
       get_language_ok set_language_ok split: option.splits)

lemma perform_open_sessions: "open_sessions (snd (perform c None st)) = open_sessions st"
  by (cases c)
    (auto simp add: get_known_unfollowers_ok update_known_unfollowers_ok get_instagram_id_ok
       update_instagram_id_ok start_notifying_ok stop_notifying_ok get_notified_telegram_ids_ok
       get_language_ok set_language_ok split: option.splits)

text \<open>
  C7. For each of the nine methods and whatever engine call of its transaction fails (a
  statement of the body or the commit): when the method raises, the exception is the one the
  engine raised and the storage is the one before the call, so every write the body had made in
  the session is gone; when it returns, its result and the storage are those of the run
  without failure, so all of its writes are committed; and on both paths the session that was
  opened is closed again. The \<^verbatim>\<open>AttributeError\<close> of \<^verbatim>\<open>get_instagram_id\<close> is caught inside the
  body and never reaches \<^verbatim>\<open>session_scope\<close>.
\<close>

theorem perform_all_or_nothing:
  "(case perform c f st of
      (Inl e, st') \<Rightarrow> st' = st \<and> (\<exists>k msg. f = Some (k, msg) \<and> e = StorageUnavailable msg)
    | (Inr r, st') \<Rightarrow> perform c None st = (Inr r, st'))
   \<and> open_sessions (snd (perform c f st)) = open_sessions st"
proof -
  obtain r0 where ok: "fst (perform c None st) = Inr r0"
    using perform_ok_Inr [of c st] by blast
  from perform_fault [of c f st] show ?thesis
  proof
    assume same: "perform c f st = perform c None st"
    define st1 where "st1 = snd (perform c None st)"
    have none: "perform c None st = (Inr r0, st1)"
      using ok by (simp add: prod_eq_iff st1_def)
    have eq: "perform c f st = (Inr r0, st1)"
      using same none by simp
    have opens: "open_sessions st1 = open_sessions st"
      using perform_open_sessions [of c st] by (simp add: st1_def)
    show ?thesis
      by (simp add: eq none opens)
  next
    assume "\<exists>k msg. f = Some (k, msg) \<and> perform c f st = (Inl (StorageUnavailable msg), st)"
    then show ?thesis by auto
  qed
qed

text \<open>
  The engine failing at the second statement of a replace, after the delete went through in
  the session: the exception comes out and the two old rows are still there.
\<close>

theorem perform_all_or_nothing_witness:
  "perform (UpdateKnownUnfollowers 1 10 (dlist_of_list [5])) (Some (1, ''disk full''))
     (run [(UpdateKnownUnfollowers 1 10 (dlist_of_list [100, 101]), None)] empty_storage) =
   (Inl (StorageUnavailable ''disk full''),
    run [(UpdateKnownUnfollowers 1 10 (dlist_of_list [100, 101]), None)] empty_storage)"
proof -
  have raised:
    "fst (perform (UpdateKnownUnfollowers 1 10 (dlist_of_list [5])) (Some (1, ''disk full''))
       (run [(UpdateKnownUnfollowers 1 10 (dlist_of_list [100, 101]), None)] empty_storage)) =
     Inl (StorageUnavailable ''disk full'')"
    by (simp add: update_known_unfollowers_def tx_defs empty_storage_def)
  from raised perform_all_or_nothing
    [where c = "UpdateKnownUnfollowers 1 10 (dlist_of_list [5])"
       and f = "Some (1, ''disk full'')"
       and st = "run [(UpdateKnownUnfollowers 1 10 (dlist_of_list [100, 101]), None)]
                   empty_storage"]
  show ?thesis
    by (auto simp add: prod_eq_iff split: prod.splits sum.splits)
qed

section \<open>One settings row for a user\<close>

lemmas ok_simps = get_known_unfollowers_ok update_known_unfollowers_ok get_instagram_id_ok
  update_instagram_id_ok start_notifying_ok stop_notifying_ok get_notified_telegram_ids_ok
  get_language_ok set_language_ok

lemma first_row_None_ids:
  "first_row (\<lambda>r. telegram_id r = u) xs = None \<longleftrightarrow> u \<notin> set (map telegram_id xs)"
  by (auto simp add: first_row_None)

lemma map_telegram_id_update:
  assumes "first_row P xs = Some (h, row)" and "telegram_id row' = telegram_id row"
  shows "map telegram_id (xs[h := row']) = map telegram_id xs"
proof -
  from first_row_Some [OF assms(1)] have "h < length xs" and "xs ! h = row" by simp_all
  then have "(map telegram_id xs)[h := telegram_id row'] = map telegram_id xs"
    using assms(2) by (simp add: list_update_same_conv)
  then show ?thesis by (simp add: map_update)
qed

lemma perform_ids_None:
  "set (map telegram_id (telegram_users (committed (snd (perform c None st))))) \<subseteq>
     set (map telegram_id (telegram_users (committed st))) \<union>
     (case c of UpdateInstagramId t i \<Rightarrow> {t} | SetLanguage t l \<Rightarrow> {t} | _ \<Rightarrow> {})"
  by (cases c)
    (auto simp add: ok_simps new_TelegramUser_def map_telegram_id_update
       simp del: set_map split: option.splits)

lemma perform_unique_None:
  assumes "unique_users (committed st)"
  shows "unique_users (committed (snd (perform c None st)))"
  using assms
  by (cases c)
    (auto simp add: ok_simps unique_users_def new_TelegramUser_def map_telegram_id_update
       first_row_None_ids split: option.splits)

lemma perform_unique:
  assumes "unique_users (committed st)"
  shows "unique_users (committed (snd (perform c f st)))"
  using perform_fault [of c f st] perform_unique_None [OF assms, of c] assms
  by auto

lemma run_unique:
  "unique_users (committed st) \<Longrightarrow> unique_users (committed (run cs st))"
proof (induction cs arbitrary: st)
  case Nil
  then show ?case by simp
next
  case (Cons x cs)
  obtain c f where x: "x = (c, f)" by (cases x)
  from Cons.prems have "unique_users (committed (snd (perform c f st)))"
    by (rule perform_unique)
  then show ?case using Cons.IH x by simp
qed

lemma distinct_at_most_one:
  "distinct (map g xs) \<Longrightarrow> length (filter (\<lambda>r. g r = u) xs) \<le> 1"
proof (induction xs)
  case Nil
  then show ?case by simp
next
  case (Cons x xs)
  show ?case
  proof (cases "g x = u")
    case True
    with Cons.prems have "u \<notin> g ` set xs" by simp
    then have "\<forall>r \<in> set xs. g r \<noteq> u" by blast
    then have "filter (\<lambda>r. g r = u) xs = []" by (simp add: filter_empty_conv)
    with True show ?thesis by simp
  next
    case False
    with Cons show ?thesis by simp
  qed
qed

text \<open>
  C6. After any sequence of calls of the nine methods on the empty storage, whatever engine
  failures the calls meet, the \<^verbatim>\<open>telegram_users\<close> table holds at most one row for a
  \<^verbatim>\<open>telegram_id\<close>; and every single call keeps that property.
\<close>

theorem run_keeps_one_row_per_user:
  "unique_users (committed (run cs empty_storage))
   \<and> length (filter (\<lambda>r. telegram_id r = u)
               (telegram_users (committed (run cs empty_storage)))) \<le> 1
   \<and> (unique_users (committed st) \<longrightarrow> unique_users (committed (snd (perform c f st))))"
proof -
  have e: "unique_users (committed empty_storage)"
    by (simp add: unique_users_def empty_storage_def)
  have r: "unique_users (committed (run cs empty_storage))"
    using e by (rule run_unique)
  from r have "length (filter (\<lambda>r. telegram_id r = u)
      (telegram_users (committed (run cs empty_storage)))) \<le> 1"
    unfolding unique_users_def by (rule distinct_at_most_one)
  with r perform_unique [of st c f] show ?thesis by blast
qed


theorem run_keeps_one_row_per_user_witness:
  "unique_users (committed (run [(SetLanguage 42 (Some ''en''), None)] empty_storage))
   \<and> unique_users (committed (snd (perform (UpdateInstagramId 42 555) None
        (run [(SetLanguage 42 (Some ''en''), None)] empty_storage))))"
proof -
  have h: "unique_users (committed (run [(SetLanguage 42 (Some ''en''), None)] empty_storage))"
    by (simp add: set_language_ok unique_users_def empty_storage_def new_TelegramUser_def)
  from h run_keeps_one_row_per_user
    [where st = "run [(SetLanguage 42 (Some ''en''), None)] empty_storage"
       and c = "UpdateInstagramId 42 555" and f = None]
  show ?thesis by blast
qed

section \<open>What the notification toggles require\<close>

lemma perform_ids:
  "set (map telegram_id (telegram_users (committed (snd (perform c f st))))) \<subseteq>
     set (map telegram_id (telegram_users (committed st))) \<union>
     (case c of UpdateInstagramId t i \<Rightarrow> {t} | SetLanguage t l \<Rightarrow> {t} | _ \<Rightarrow> {})"
proof -
  from perform_fault [of c f st]
  have "perform c f st = perform c None st \<or> snd (perform c f st) = st"
    by auto
  then show ?thesis
  proof
    assume "perform c f st = perform c None st"
    with perform_ids_None [of c st] show ?thesis by simp
  next
    assume "snd (perform c f st) = st"
    then show ?thesis by simp
  qed
qed

lemma run_ids:
  "u \<in> set (map telegram_id (telegram_users (committed (run cs st)))) \<Longrightarrow>
   u \<in> set (map telegram_id (telegram_users (committed st))) \<or>
   (\<exists>c f. (c, f) \<in> set cs \<and> ((\<exists>a. c = UpdateInstagramId u a) \<or> (\<exists>l. c = SetLanguage u l)))"
proof (induction cs arbitrary: st)
  case Nil
  then show ?case by simp
next
  case (Cons x cs)
  obtain c f where x: "x = (c, f)" by (cases x)
  from Cons.prems x
  have "u \<in> set (map telegram_id (telegram_users (committed (run cs (snd (perform c f st))))))"
    by simp
  from Cons.IH [OF this]
  consider (old) "u \<in> set (map telegram_id (telegram_users (committed (snd (perform c f st)))))"
    | (later) "\<exists>c f. (c, f) \<in> set cs \<and>
        ((\<exists>a. c = UpdateInstagramId u a) \<or> (\<exists>l. c = SetLanguage u l))"
    by blast
  then show ?case
  proof cases
    case old
    with perform_ids [of c f st]
    have "u \<in> set (map telegram_id (telegram_users (committed st))) \<or>
          u \<in> (case c of UpdateInstagramId t i \<Rightarrow> {t} | SetLanguage t l \<Rightarrow> {t} | _ \<Rightarrow> {})"
      by blast
    then show ?thesis
    proof
      assume "u \<in> set (map telegram_id (telegram_users (committed st)))"
      then show ?thesis by blast
    next
      assume "u \<in> (case c of UpdateInstagramId t i \<Rightarrow> {t} | SetLanguage t l \<Rightarrow> {t} | _ \<Rightarrow> {})"
      then have "(\<exists>a. c = UpdateInstagramId u a) \<or> (\<exists>l. c = SetLanguage u l)"
        by (cases c) auto
      with x show ?thesis by auto
    qed
  next
    case later
    then show ?thesis by auto
  qed
qed

lemma start_notifying_True_row:
  assumes "fst (start_notifying u f st) = Inr True"
  shows "u \<in> set (map telegram_id (telegram_users (committed st)))"
proof (rule ccontr)
  assume "u \<notin> set (map telegram_id (telegram_users (committed st)))"
  then have "first_row (\<lambda>r. telegram_id r = u) (telegram_users (committed st)) = None"
    by (simp add: first_row_None_ids del: set_map)
  then have "start_notifying u None st = (Inr False, st)"
    by (simp add: start_notifying_ok)
  with start_notifying_fault [of u f st] assms show False
    by auto
qed

lemma stop_notifying_True_row:
  assumes "fst (stop_notifying u f st) = Inr True"
  shows "u \<in> set (map telegram_id (telegram_users (committed st)))"
proof (rule ccontr)
  assume "u \<notin> set (map telegram_id (telegram_users (committed st)))"
  then have "first_row (\<lambda>r. telegram_id r = u) (telegram_users (committed st)) = None"
    by (simp add: first_row_None_ids del: set_map)
  then have "stop_notifying u None st = (Inr False, st)"
    by (simp add: stop_notifying_ok)
  with stop_notifying_fault [of u f st] assms show False
    by auto
qed

lemma toggle_True_row:
  "fst (start_notifying u f st) = Inr True \<or> fst (stop_notifying u f st) = Inr True \<Longrightarrow>
   u \<in> set (map telegram_id (telegram_users (committed st)))"
  using start_notifying_True_row stop_notifying_True_row by blast

lemma toggle_no_row:
  "u \<notin> set (map telegram_id (telegram_users (committed st))) \<Longrightarrow>
   start_notifying u None st = (Inr False, st) \<and> stop_notifying u None st = (Inr False, st)"
  by (simp add: start_notifying_ok stop_notifying_ok first_row_None_ids [symmetric]
        del: set_map)

text \<open>
  C3, as the code has it. \<^verbatim>\<open>start_notifying\<close> and \<^verbatim>\<open>stop_notifying\<close> test that a
  \<^verbatim>\<open>telegram_users\<close> row exists, not that it has an \<^verbatim>\<open>instagram_id\<close>. On the storage reached from
  the empty one by a sequence of calls, a toggle for \<open>u\<close> returns \<^verbatim>\<open>True\<close> only if the sequence
  has a call \<^verbatim>\<open>update_instagram_id(u, _)\<close> or \<^verbatim>\<open>set_language(u, _)\<close>, the two methods that
  create the row; and for a user without a row both toggles return \<^verbatim>\<open>False\<close> and change
  nothing.
\<close>

theorem toggle_needs_settings_row:
  "((fst (start_notifying u f (run cs empty_storage)) = Inr True \<or>
     fst (stop_notifying u f (run cs empty_storage)) = Inr True) \<longrightarrow>
    (\<exists>c g. (c, g) \<in> set cs \<and> ((\<exists>a. c = UpdateInstagramId u a) \<or> (\<exists>l. c = SetLanguage u l))))
   \<and> (u \<notin> set (map telegram_id (telegram_users (committed st))) \<longrightarrow>
        start_notifying u None st = (Inr False, st) \<and> stop_notifying u None st = (Inr False, st))"
proof -
  have "\<exists>c g. (c, g) \<in> set cs \<and> ((\<exists>a. c = UpdateInstagramId u a) \<or> (\<exists>l. c = SetLanguage u l))"
    if "fst (start_notifying u f (run cs empty_storage)) = Inr True \<or>
        fst (stop_notifying u f (run cs empty_storage)) = Inr True"
  proof -
    from toggle_True_row [OF that] run_ids [of u cs empty_storage] show ?thesis
      by (simp add: empty_storage_def)
  qed
  with toggle_no_row [of u st] show ?thesis by blast
qed


theorem toggle_needs_settings_row_witness:
  "fst (start_notifying 99 None (run [(UpdateInstagramId 99 555, None)] empty_storage)) = Inr True
   \<and> (\<exists>c g. (c, g) \<in> set [(UpdateInstagramId 99 555, None :: fault)] \<and>
         ((\<exists>a. c = UpdateInstagramId 99 a) \<or> (\<exists>l. c = SetLanguage 99 l)))
   \<and> 99 \<notin> set (map telegram_id (telegram_users (committed empty_storage)))
   \<and> start_notifying 99 None empty_storage = (Inr False, empty_storage)
   \<and> stop_notifying 99 None empty_storage = (Inr False, empty_storage)"
proof -
  have h1: "fst (start_notifying 99 None
      (run [(UpdateInstagramId 99 555, None)] empty_storage)) = Inr True"
    by (simp add: update_instagram_id_ok start_notifying_ok empty_storage_def
          new_TelegramUser_def)
  have h2: "99 \<notin> set (map telegram_id (telegram_users (committed empty_storage)))"
    by (simp add: empty_storage_def)
  note t = toggle_needs_settings_row
    [where u = 99 and f = None and cs = "[(UpdateInstagramId 99 555, None)]"
       and st = empty_storage]
  from mp [OF conjunct1 [OF t] disjI1 [OF h1]]
  have q: "\<exists>c g. (c, g) \<in> set [(UpdateInstagramId 99 555, None :: fault)] \<and>
      ((\<exists>a. c = UpdateInstagramId 99 a) \<or> (\<exists>l. c = SetLanguage 99 l))" .
  from mp [OF conjunct2 [OF t] h2]
  have r: "start_notifying 99 None empty_storage = (Inr False, empty_storage) \<and>
      stop_notifying 99 None empty_storage = (Inr False, empty_storage)" .
  show ?thesis
    by (rule conjI [OF h1 conjI [OF q conjI [OF h2 r]]])
qed

text \<open>
  C3 as it is stated fails: after \<^verbatim>\<open>set_language(42, "en")\<close> alone on the empty storage, with no
  \<^verbatim>\<open>update_instagram_id\<close> call and \<^verbatim>\<open>get_instagram_id(42)\<close> returning \<^verbatim>\<open>None\<close>, both toggles
  return \<^verbatim>\<open>True\<close>.
\<close>

theorem toggle_without_linked_account:
  "fst (start_notifying 42 None (run [(SetLanguage 42 (Some ''en''), None)] empty_storage)) = Inr True
   \<and> fst (stop_notifying 42 None (run [(SetLanguage 42 (Some ''en''), None)] empty_storage)) = Inr True
   \<and> fst (get_instagram_id 42 None (run [(SetLanguage 42 (Some ''en''), None)] empty_storage)) = Inr None"
  by (simp add: set_language_def start_notifying_def stop_notifying_def get_instagram_id_def
        tx_defs empty_storage_def new_TelegramUser_def)

section \<open>The settings row: creation, toggles and frame\<close>

lemma first_row_append_new:
  "first_row P xs = None \<Longrightarrow> P y \<Longrightarrow> first_row P (xs @ [y]) = Some (length xs, y)"
  by (induction xs) (auto split: if_splits)

lemma first_row_update:
  "first_row P xs = Some (h, r) \<Longrightarrow> P r' \<Longrightarrow> first_row P (xs[h := r']) = Some (h, r')"
proof (induction xs arbitrary: h)
  case Nil
  then show ?case by simp
next
  case (Cons x xs)
  show ?case
  proof (cases "P x")
    case True
    with Cons.prems show ?thesis by simp
  next
    case False
    with Cons.prems obtain i where i: "first_row P xs = Some (i, r)" and h: "h = Suc i"
      by auto
    from Cons.IH [OF i Cons.prems(2)] False h show ?thesis by simp
  qed
qed

lemma first_row_update_other:
  "h < length xs \<Longrightarrow> \<not> P (xs ! h) \<Longrightarrow> \<not> P r' \<Longrightarrow> first_row P (xs[h := r']) = first_row P xs"
proof (induction xs arbitrary: h)
  case Nil
  then show ?case by simp
next
  case (Cons x xs)
  then show ?case by (cases h) auto
qed

lemma filter_update_other:
  "h < length xs \<Longrightarrow> \<not> Q (xs ! h) \<Longrightarrow> \<not> Q r' \<Longrightarrow> filter Q (xs[h := r']) = filter Q xs"
proof (induction xs arbitrary: h)
  case Nil
  then show ?case by simp
next
  case (Cons x xs)
  then show ?case by (cases h) auto
qed

lemma notified_ids_update:
  "h < length xs \<Longrightarrow> telegram_id r' = telegram_id (xs ! h) \<Longrightarrow>
   is_notified r' = is_notified (xs ! h) \<Longrightarrow>
   map telegram_id (filter is_notified (xs[h := r'])) = map telegram_id (filter is_notified xs)"
proof (induction xs arbitrary: h)
  case Nil
  then show ?case by simp
next
  case (Cons x xs)
  then show ?case by (cases h) auto
qed

lemma notified_ids_list:
  "telegram_id ` {r \<in> set xs. is_notified r} = set (map telegram_id (filter is_notified xs))"
  by auto

lemma only_row_of_user:
  assumes d: "distinct (map g xs)" and h: "h < length xs" and gh: "g (xs ! h) = u"
    and r: "r \<in> set (xs[h := r'])" and gr: "g r = u"
  shows "r = r'"
proof -
  from r obtain j where j: "j < length xs" and rj: "r = (xs[h := r']) ! j"
    by (auto simp add: in_set_conv_nth)
  show ?thesis
  proof (cases "j = h")
    case True
    with rj h show ?thesis by simp
  next
    case False
    with rj have "r = xs ! j" by simp
    with gr gh have "g (xs ! j) = g (xs ! h)" by simp
    with nth_eq_iff_index_eq [OF d, of j h] j h have "j = h" by simp
    with False show ?thesis by simp
  qed
qed

lemma start_stop_not_notified:
  assumes u: "unique_users (committed st)"
    and k: "u \<in> set (map telegram_id (telegram_users (committed st)))"
  shows "\<exists>S. fst (get_notified_telegram_ids None
            (snd (stop_notifying u None (snd (start_notifying u None st))))) = Inr S \<and> u \<notin> S"
proof -
  define xs where "xs = telegram_users (committed st)"
  from k obtain h row where fr: "first_row (\<lambda>r. telegram_id r = u) xs = Some (h, row)"
    using first_row_None_ids [of u xs] by (cases "first_row (\<lambda>r. telegram_id r = u) xs") (auto simp add: xs_def)
  from first_row_Some [OF fr] have h: "h < length xs" and row: "xs ! h = row"
    and idr: "telegram_id row = u" by simp_all
  define ys where "ys = xs[h := row\<lparr>is_notified := True\<rparr>]"
  have fr2: "first_row (\<lambda>r. telegram_id r = u) ys = Some (h, row\<lparr>is_notified := True\<rparr>)"
    unfolding ys_def using fr idr by (intro first_row_update) simp_all
  define zs where "zs = xs[h := row\<lparr>is_notified := False\<rparr>]"
  have zs: "ys[h := row\<lparr>is_notified := True, is_notified := False\<rparr>] = zs"
    by (simp add: ys_def zs_def)
  have st2: "telegram_users (committed (snd (stop_notifying u None (snd (start_notifying u None st))))) = zs"
    using fr fr2 zs by (simp add: start_notifying_ok stop_notifying_ok xs_def [symmetric] ys_def [symmetric])
  have d: "distinct (map telegram_id xs)"
    using u by (simp add: unique_users_def xs_def)
  have "\<not> is_notified r" if "r \<in> set zs" and "telegram_id r = u" for r
  proof -
    from only_row_of_user [OF d h _ that(1) [unfolded zs_def] that(2)] row idr
    have "r = row\<lparr>is_notified := False\<rparr>" by simp
    then show ?thesis by simp
  qed
  then have "u \<notin> telegram_id ` {r \<in> set zs. is_notified r}" by auto
  then show ?thesis
    by (simp add: get_notified_telegram_ids_ok st2)
qed

lemma toggle_result:
  "fst (start_notifying u None st) = Inr (u \<in> set (map telegram_id (telegram_users (committed st))))
   \<and> fst (stop_notifying u None st) = Inr (u \<in> set (map telegram_id (telegram_users (committed st))))"
proof (cases "first_row (\<lambda>r. telegram_id r = u) (telegram_users (committed st))")
  case None
  moreover from None have "u \<notin> set (map telegram_id (telegram_users (committed st)))"
    by (simp add: first_row_None_ids del: set_map)
  ultimately show ?thesis
    by (simp add: start_notifying_ok stop_notifying_ok del: set_map)
next
  case (Some p)
  obtain h row where p: "p = (h, row)" by (cases p)
  from Some have "u \<in> set (map telegram_id (telegram_users (committed st)))"
    using first_row_None_ids [of u "telegram_users (committed st)"] by simp
  with Some p show ?thesis
    by (simp add: start_notifying_ok stop_notifying_ok del: set_map)
qed

lemma toggle_ids_kept:
  "map telegram_id (telegram_users (committed (snd (start_notifying u None st)))) =
     map telegram_id (telegram_users (committed st))
   \<and> map telegram_id (telegram_users (committed (snd (stop_notifying u None st)))) =
     map telegram_id (telegram_users (committed st))"
  by (auto simp add: start_notifying_ok stop_notifying_ok map_telegram_id_update
        split: option.splits)

lemma toggle_sets_flag:
  assumes "first_row (\<lambda>r. telegram_id r = u) (telegram_users (committed st)) = Some (h, row)"
  shows "first_row (\<lambda>r. telegram_id r = u)
           (telegram_users (committed (snd (start_notifying u None st)))) =
         Some (h, row\<lparr>is_notified := True\<rparr>)
       \<and> first_row (\<lambda>r. telegram_id r = u)
           (telegram_users (committed (snd (stop_notifying u None st)))) =
         Some (h, row\<lparr>is_notified := False\<rparr>)"
proof -
  from first_row_Some [OF assms] have "telegram_id row = u" by simp
  with assms show ?thesis
    by (simp add: start_notifying_ok stop_notifying_ok first_row_update)
qed

lemma start_then_notified:
  assumes "u \<in> set (map telegram_id (telegram_users (committed st)))"
  shows "\<exists>S. fst (get_notified_telegram_ids None (snd (start_notifying u None st))) = Inr S \<and> u \<in> S"
proof -
  define xs where "xs = telegram_users (committed st)"
  from assms obtain h row where fr: "first_row (\<lambda>r. telegram_id r = u) xs = Some (h, row)"
    using first_row_None_ids [of u xs]
    by (cases "first_row (\<lambda>r. telegram_id r = u) xs") (auto simp add: xs_def)
  from first_row_Some [OF fr] have h: "h < length xs" and idr: "telegram_id row = u"
    by simp_all
  from h have "row\<lparr>is_notified := True\<rparr> \<in> set (xs[h := row\<lparr>is_notified := True\<rparr>])"
    by (simp add: set_update_memI)
  with idr have "u \<in> telegram_id ` {r \<in> set (xs[h := row\<lparr>is_notified := True\<rparr>]). is_notified r}"
    by (intro image_eqI [where x = "row\<lparr>is_notified := True\<rparr>"]) simp_all
  with fr show ?thesis
    by (simp add: get_notified_telegram_ids_ok start_notifying_ok xs_def [symmetric])
qed

text \<open>
  C4. With the engine not failing: \<^verbatim>\<open>start_notifying(u)\<close> and \<^verbatim>\<open>stop_notifying(u)\<close> return
  \<^verbatim>\<open>True\<close> exactly when a \<^verbatim>\<open>telegram_users\<close> row of \<open>u\<close> exists; without a row they leave the
  storage as it is; they never add or remove a row; with a row they set \<^verbatim>\<open>is_notified\<close> of the
  row that \<^verbatim>\<open>.first()\<close> finds to \<^verbatim>\<open>True\<close>, respectively \<^verbatim>\<open>False\<close>. \<^verbatim>\<open>get_notified_telegram_ids()\<close>
  returns the \<^verbatim>\<open>telegram_id\<close> of the rows with \<^verbatim>\<open>is_notified\<close>. So after a successful
  \<^verbatim>\<open>start_notifying(u)\<close> the set has \<open>u\<close>, and, the table holding at most one row for a user (the
  data model's invariant, which every reachable storage has), after a following
  \<^verbatim>\<open>stop_notifying(u)\<close> it has not.
\<close>

theorem notification_toggles:
  "fst (start_notifying u None st) =
     Inr (u \<in> set (map telegram_id (telegram_users (committed st))))
   \<and> fst (stop_notifying u None st) =
     Inr (u \<in> set (map telegram_id (telegram_users (committed st))))
   \<and> (u \<notin> set (map telegram_id (telegram_users (committed st))) \<longrightarrow>
        snd (start_notifying u None st) = st \<and> snd (stop_notifying u None st) = st)
   \<and> map telegram_id (telegram_users (committed (snd (start_notifying u None st)))) =
       map telegram_id (telegram_users (committed st))
   \<and> map telegram_id (telegram_users (committed (snd (stop_notifying u None st)))) =
       map telegram_id (telegram_users (committed st))
   \<and> (\<forall>h row.
        first_row (\<lambda>r. telegram_id r = u) (telegram_users (committed st)) = Some (h, row) \<longrightarrow>
          first_row (\<lambda>r. telegram_id r = u)
            (telegram_users (committed (snd (start_notifying u None st)))) =
          Some (h, row\<lparr>is_notified := True\<rparr>)
        \<and> first_row (\<lambda>r. telegram_id r = u)
            (telegram_users (committed (snd (stop_notifying u None st)))) =
          Some (h, row\<lparr>is_notified := False\<rparr>))
   \<and> get_notified_telegram_ids None st =
       (Inr (telegram_id ` {r \<in> set (telegram_users (committed st)). is_notified r}), st)
   \<and> (u \<in> set (map telegram_id (telegram_users (committed st))) \<longrightarrow>
        (\<exists>S. fst (get_notified_telegram_ids None (snd (start_notifying u None st))) = Inr S \<and>
             u \<in> S))
   \<and> (u \<in> set (map telegram_id (telegram_users (committed st))) \<and>
      unique_users (committed st) \<longrightarrow>
        (\<exists>S. fst (get_notified_telegram_ids None
                 (snd (stop_notifying u None (snd (start_notifying u None st))))) = Inr S \<and>
             u \<notin> S))"
  using toggle_result [of u st] toggle_no_row [of u st] toggle_ids_kept [of u st]
    toggle_sets_flag [of u st] get_notified_telegram_ids_ok [of st]
    start_then_notified [of u st] start_stop_not_notified [of st u]
  by (intro conjI impI allI) (simp_all del: set_map)


theorem notification_toggles_witness:
  "99 \<in> set (map telegram_id (telegram_users (committed
      (run [(UpdateInstagramId 99 555, None)] empty_storage))))
   \<and> unique_users (committed (run [(UpdateInstagramId 99 555, None)] empty_storage))
   \<and> fst (start_notifying 99 None (run [(UpdateInstagramId 99 555, None)] empty_storage)) =
       Inr True
   \<and> (\<exists>S. fst (get_notified_telegram_ids None (snd (start_notifying 99 None
            (run [(UpdateInstagramId 99 555, None)] empty_storage)))) = Inr S \<and> 99 \<in> S)
   \<and> (\<exists>S. fst (get_notified_telegram_ids None (snd (stop_notifying 99 None
            (snd (start_notifying 99 None
              (run [(UpdateInstagramId 99 555, None)] empty_storage)))))) = Inr S \<and> 99 \<notin> S)"
proof -
  define W where "W = run [(UpdateInstagramId 99 555, None)] empty_storage"
  have k: "99 \<in> set (map telegram_id (telegram_users (committed W)))"
    by (simp add: W_def update_instagram_id_ok empty_storage_def new_TelegramUser_def)
  have q: "unique_users (committed W)"
    by (simp add: W_def update_instagram_id_ok empty_storage_def new_TelegramUser_def
          unique_users_def)
  note t = notification_toggles [where u = 99 and st = W]
  from t k have a: "fst (start_notifying 99 None W) = Inr True"
    by (simp del: set_map)
  from t k have b: "\<exists>S. fst (get_notified_telegram_ids None (snd (start_notifying 99 None W))) =
      Inr S \<and> 99 \<in> S"
    by blast
  from t k q have c: "\<exists>S. fst (get_notified_telegram_ids None
      (snd (stop_notifying 99 None (snd (start_notifying 99 None W))))) = Inr S \<and> 99 \<notin> S"
    by blast
  from k q a b c show ?thesis
    unfolding W_def by blast
qed

lemma set_language_creates:
  assumes "u \<notin> set (map telegram_id (telegram_users (committed st)))"
  shows "(let st' = snd (set_language u L None st) in
       fst (set_language u L None st) = Inr ()
     \<and> telegram_users (committed st') = telegram_users (committed st) @
         [\<lparr>telegram_id = u, instagram_id = None, is_notified = False, language = L\<rparr>]
     \<and> unfollowers (committed st') = unfollowers (committed st)
     \<and> get_language u None st' = (Inr L, st')
     \<and> get_instagram_id u None st' = (Inr None, st')
     \<and> (\<exists>S. fst (get_notified_telegram_ids None st') = Inr S \<and> u \<notin> S))"
proof -
  from assms have n: "first_row (\<lambda>r. telegram_id r = u) (telegram_users (committed st)) = None"
    by (simp add: first_row_None_ids del: set_map)
  define new where
    "new = \<lparr>telegram_id = u, instagram_id = None, is_notified = False, language = L\<rparr>"
  have s: "u \<notin> telegram_id ` {r \<in> set (telegram_users (committed st) @ [new]). is_notified r}"
  proof
    assume "u \<in> telegram_id ` {r \<in> set (telegram_users (committed st) @ [new]). is_notified r}"
    then obtain r where r: "r \<in> set (telegram_users (committed st) @ [new])"
      and nr: "is_notified r" and ir: "telegram_id r = u"
      by auto
    from r have "r \<in> set (telegram_users (committed st)) \<or> r = new" by auto
    then show False
    proof
      assume "r \<in> set (telegram_users (committed st))"
      with ir assms show False by auto
    next
      assume "r = new"
      with nr show False by (simp add: new_def)
    qed
  qed
  have t: "telegram_users (committed (snd (set_language u L None st))) =
      telegram_users (committed st) @ [new]"
    using n by (simp add: set_language_ok new_TelegramUser_def new_def)
  have g: "\<exists>S. fst (get_notified_telegram_ids None (snd (set_language u L None st))) = Inr S \<and>
      u \<notin> S"
    using s by (simp only: get_notified_telegram_ids_ok t fst_conv) blast
  from n g show ?thesis
    by (simp add: Let_def set_language_ok get_language_ok get_instagram_id_ok
          new_TelegramUser_def first_row_append_new)
qed

lemma update_instagram_id_creates:
  assumes "u \<notin> set (map telegram_id (telegram_users (committed st)))"
  shows "(let st' = snd (update_instagram_id u a None st) in
       fst (update_instagram_id u a None st) = Inr ()
     \<and> telegram_users (committed st') = telegram_users (committed st) @
         [\<lparr>telegram_id = u, instagram_id = Some a, is_notified = False, language = None\<rparr>]
     \<and> unfollowers (committed st') = unfollowers (committed st)
     \<and> get_instagram_id u None st' = (Inr (Some a), st')
     \<and> get_language u None st' = (Inr None, st'))"
proof -
  from assms have n: "first_row (\<lambda>r. telegram_id r = u) (telegram_users (committed st)) = None"
    by (simp add: first_row_None_ids del: set_map)
  then show ?thesis
    by (simp add: Let_def update_instagram_id_ok get_language_ok get_instagram_id_ok
          new_TelegramUser_def first_row_append_new)
qed

lemma update_instagram_id_in_place:
  assumes "first_row (\<lambda>r. telegram_id r = u) (telegram_users (committed st)) = Some (h, row)"
  shows "(let st' = snd (update_instagram_id u a None st) in
       fst (update_instagram_id u a None st) = Inr ()
     \<and> telegram_users (committed st') =
         (telegram_users (committed st))[h := row\<lparr>instagram_id := Some a\<rparr>]
     \<and> length (telegram_users (committed st')) = length (telegram_users (committed st))
     \<and> get_instagram_id u None st' = (Inr (Some a), st'))"
proof -
  from first_row_Some [OF assms] have "telegram_id row = u" by simp
  with assms show ?thesis
    by (simp add: Let_def update_instagram_id_ok get_instagram_id_ok first_row_update)
qed

text \<open>
  C5. With the engine not failing, on a storage without a \<^verbatim>\<open>telegram_users\<close> row of \<open>u\<close>:
  \<^verbatim>\<open>set_language(u, L)\<close> appends the row \<open>(u, NULL, False, L)\<close>, after which
  \<^verbatim>\<open>get_language(u)\<close> returns \<open>L\<close>, \<^verbatim>\<open>get_instagram_id(u)\<close> returns \<^verbatim>\<open>None\<close> and \<open>u\<close> is not among
  the notified ids; \<^verbatim>\<open>update_instagram_id(u, a)\<close> appends the row \<open>(u, a, False, NULL)\<close>. When
  the row exists, \<^verbatim>\<open>update_instagram_id(u, a)\<close> writes \<^verbatim>\<open>instagram_id\<close> of that row where it
  stands.
\<close>

theorem lazy_row_creation:
  "(u \<notin> set (map telegram_id (telegram_users (committed st))) \<longrightarrow>
      (let st' = snd (set_language u L None st) in
         fst (set_language u L None st) = Inr ()
       \<and> telegram_users (committed st') = telegram_users (committed st) @
           [\<lparr>telegram_id = u, instagram_id = None, is_notified = False, language = L\<rparr>]
       \<and> unfollowers (committed st') = unfollowers (committed st)
       \<and> get_language u None st' = (Inr L, st')
       \<and> get_instagram_id u None st' = (Inr None, st')
       \<and> (\<exists>S. fst (get_notified_telegram_ids None st') = Inr S \<and> u \<notin> S)))
   \<and> (u \<notin> set (map telegram_id (telegram_users (committed st))) \<longrightarrow>
      (let st' = snd (update_instagram_id u a None st) in
         fst (update_instagram_id u a None st) = Inr ()
       \<and> telegram_users (committed st') = telegram_users (committed st) @
           [\<lparr>telegram_id = u, instagram_id = Some a, is_notified = False, language = None\<rparr>]
       \<and> unfollowers (committed st') = unfollowers (committed st)
       \<and> get_instagram_id u None st' = (Inr (Some a), st')
       \<and> get_language u None st' = (Inr None, st')))
   \<and> (\<forall>h row.
        first_row (\<lambda>r. telegram_id r = u) (telegram_users (committed st)) = Some (h, row) \<longrightarrow>
        (let st' = snd (update_instagram_id u a None st) in
           fst (update_instagram_id u a None st) = Inr ()
         \<and> telegram_users (committed st') =
             (telegram_users (committed st))[h := row\<lparr>instagram_id := Some a\<rparr>]
         \<and> length (telegram_users (committed st')) = length (telegram_users (committed st))
         \<and> get_instagram_id u None st' = (Inr (Some a), st')))"
  using set_language_creates [of u st L] update_instagram_id_creates [of u st a]
    update_instagram_id_in_place [of u st _ _ a]
  by blast


theorem lazy_row_creation_witness:
  "42 \<notin> set (map telegram_id (telegram_users (committed empty_storage)))
   \<and> get_language 42 None (snd (set_language 42 (Some ''en'') None empty_storage)) =
       (Inr (Some ''en''), snd (set_language 42 (Some ''en'') None empty_storage))
   \<and> get_instagram_id 42 None (snd (set_language 42 (Some ''en'') None empty_storage)) =
       (Inr None, snd (set_language 42 (Some ''en'') None empty_storage))
   \<and> first_row (\<lambda>r. telegram_id r = 42)
        (telegram_users (committed (snd (set_language 42 (Some ''en'') None empty_storage)))) =
       Some (0, \<lparr>telegram_id = 42, instagram_id = None, is_notified = False,
                 language = Some ''en''\<rparr>)
   \<and> get_instagram_id 42 None
        (snd (update_instagram_id 42 555 None
           (snd (set_language 42 (Some ''en'') None empty_storage)))) =
       (Inr (Some 555),
        snd (update_instagram_id 42 555 None
           (snd (set_language 42 (Some ''en'') None empty_storage))))"
proof -
  define W where "W = snd (set_language 42 (Some ''en'') None empty_storage)"
  have n: "42 \<notin> set (map telegram_id (telegram_users (committed empty_storage)))"
    by (simp add: empty_storage_def)
  note t1 = lazy_row_creation [where u = 42 and st = empty_storage and L = "Some ''en''", unfolded Let_def]
  from t1 n have a: "get_language 42 None W = (Inr (Some ''en''), W)"
    and b: "get_instagram_id 42 None W = (Inr None, W)"
    and rows: "telegram_users (committed W) = telegram_users (committed empty_storage) @
      [\<lparr>telegram_id = 42, instagram_id = None, is_notified = False, language = Some ''en''\<rparr>]"
    unfolding W_def by blast+
  from rows have fr: "first_row (\<lambda>r. telegram_id r = 42) (telegram_users (committed W)) =
      Some (0, \<lparr>telegram_id = 42, instagram_id = None, is_notified = False,
                language = Some ''en''\<rparr>)"
    by (simp add: empty_storage_def)
  note t2 = lazy_row_creation [where u = 42 and st = W and a = 555, unfolded Let_def]
  from t2 fr have c: "get_instagram_id 42 None (snd (update_instagram_id 42 555 None W)) =
      (Inr (Some 555), snd (update_instagram_id 42 555 None W))"
    by blast
  from n a b fr c show ?thesis
    unfolding W_def by blast
qed

section \<open>Lookups for a user without data\<close>

lemma lookups_no_rows:
  assumes "u \<notin> set (map telegram_id (telegram_users (committed st)))"
  shows "get_instagram_id u None st = (Inr None, st) \<and> get_language u None st = (Inr None, st)"
proof -
  from assms have "first_row (\<lambda>r. telegram_id r = u) (telegram_users (committed st)) = None"
    by (simp add: first_row_None_ids del: set_map)
  then show ?thesis by (simp add: get_instagram_id_ok get_language_ok)
qed

lemma known_no_rows:
  "u \<notin> set (map telegram_author_id (unfollowers (committed st))) \<Longrightarrow>
   get_known_unfollowers u None st = (Inr {}, st)"
  by (auto simp add: get_known_unfollowers_ok)

lemma lookups_return:
  "(\<exists>r. get_known_unfollowers u None st = (Inr r, st))
   \<and> (\<exists>r. get_instagram_id u None st = (Inr r, st))
   \<and> (\<exists>r. get_language u None st = (Inr r, st))"
  by (simp add: get_known_unfollowers_ok get_instagram_id_ok get_language_ok)

lemma lookups_no_AttributeError:
  "fst (get_known_unfollowers u f st) \<noteq> Inl AttributeError
   \<and> fst (get_instagram_id u f st) \<noteq> Inl AttributeError
   \<and> fst (get_language u f st) \<noteq> Inl AttributeError"
  using get_known_unfollowers_fault [of u f st] get_instagram_id_fault [of u f st]
    get_language_fault [of u f st] lookups_return [of u st]
  by auto

text \<open>
  C9. With the engine not failing, for a user without rows \<^verbatim>\<open>get_known_unfollowers\<close> returns
  the empty set and \<^verbatim>\<open>get_instagram_id\<close> and \<^verbatim>\<open>get_language\<close> return \<^verbatim>\<open>None\<close>, the storage
  staying as it is; only the two toggles tell that the row is missing, by returning \<^verbatim>\<open>False\<close>.
  On any storage the three lookups return a value; and whatever the engine does, none of them
  raises \<^verbatim>\<open>AttributeError\<close>: the one \<^verbatim>\<open>get_instagram_id\<close> raises on \<^verbatim>\<open>None\<close> is caught in its body.
\<close>

theorem lookups_on_unknown_user:
  "(u \<notin> set (map telegram_author_id (unfollowers (committed st))) \<longrightarrow>
      get_known_unfollowers u None st = (Inr {}, st))
   \<and> (u \<notin> set (map telegram_id (telegram_users (committed st))) \<longrightarrow>
        get_instagram_id u None st = (Inr None, st)
      \<and> get_language u None st = (Inr None, st)
      \<and> start_notifying u None st = (Inr False, st)
      \<and> stop_notifying u None st = (Inr False, st))
   \<and> (\<exists>r. get_known_unfollowers u None st = (Inr r, st))
   \<and> (\<exists>r. get_instagram_id u None st = (Inr r, st))
   \<and> (\<exists>r. get_language u None st = (Inr r, st))
   \<and> fst (get_known_unfollowers u f st) \<noteq> Inl AttributeError
   \<and> fst (get_instagram_id u f st) \<noteq> Inl AttributeError
   \<and> fst (get_language u f st) \<noteq> Inl AttributeError"
  using known_no_rows [of u st] lookups_no_rows [of u st] toggle_no_row [of u st]
    lookups_return [of u st] lookups_no_AttributeError [of u f st]
  by blast


theorem lookups_on_unknown_user_witness:
  "7 \<notin> set (map telegram_author_id (unfollowers (committed empty_storage)))
   \<and> 7 \<notin> set (map telegram_id (telegram_users (committed empty_storage)))
   \<and> get_known_unfollowers 7 None empty_storage = (Inr {}, empty_storage)
   \<and> get_instagram_id 7 None empty_storage = (Inr None, empty_storage)
   \<and> get_language 7 None empty_storage = (Inr None, empty_storage)
   \<and> start_notifying 7 None empty_storage = (Inr False, empty_storage)
   \<and> stop_notifying 7 None empty_storage = (Inr False, empty_storage)"
proof -
  have a: "7 \<notin> set (map telegram_author_id (unfollowers (committed empty_storage)))"
    and b: "7 \<notin> set (map telegram_id (telegram_users (committed empty_storage)))"
    by (simp_all add: empty_storage_def)
  from a b lookups_on_unknown_user [where u = 7 and st = empty_storage and f = None]
  show ?thesis by blast
qed

section \<open>What the settings writers leave alone\<close>

lemma set_language_frame:
  assumes fr: "first_row (\<lambda>r. telegram_id r = u) (telegram_users (committed st)) = Some (h, row)"
  shows "(let users = telegram_users (committed st); st1 = snd (set_language u L None st) in
      telegram_users (committed st1) = users[h := row\<lparr>language := L\<rparr>]
    \<and> unfollowers (committed st1) = unfollowers (committed st)
    \<and> filter (\<lambda>r. telegram_id r \<noteq> u) (telegram_users (committed st1)) =
        filter (\<lambda>r. telegram_id r \<noteq> u) users
    \<and> get_instagram_id u None st1 = (fst (get_instagram_id u None st), st1)
    \<and> fst (get_notified_telegram_ids None st1) = fst (get_notified_telegram_ids None st))"
proof -
  from first_row_Some [OF fr] have h: "h < length (telegram_users (committed st))"
    and row: "telegram_users (committed st) ! h = row" and idr: "telegram_id row = u"
    by simp_all
  have n: "map telegram_id (filter is_notified
        ((telegram_users (committed st))[h := row\<lparr>language := L\<rparr>])) =
      map telegram_id (filter is_notified (telegram_users (committed st)))"
    using h row by (intro notified_ids_update) simp_all
  have n': "telegram_id ` {r \<in> set ((telegram_users (committed st))[h := row\<lparr>language := L\<rparr>]).
        is_notified r} =
      telegram_id ` {r \<in> set (telegram_users (committed st)). is_notified r}"
    using arg_cong [OF n, of set] by (simp only: notified_ids_list)
  have f: "filter (\<lambda>r. telegram_id r \<noteq> u)
        ((telegram_users (committed st))[h := row\<lparr>language := L\<rparr>]) =
      filter (\<lambda>r. telegram_id r \<noteq> u) (telegram_users (committed st))"
    using h row idr by (intro filter_update_other) simp_all
  from fr idr f n' show ?thesis
    by (simp add: Let_def set_language_ok get_instagram_id_ok get_notified_telegram_ids_ok
          first_row_update)
qed

lemma update_instagram_id_frame:
  assumes fr: "first_row (\<lambda>r. telegram_id r = u) (telegram_users (committed st)) = Some (h, row)"
  shows "(let users = telegram_users (committed st); st2 = snd (update_instagram_id u a None st) in
      telegram_users (committed st2) = users[h := row\<lparr>instagram_id := Some a\<rparr>]
    \<and> unfollowers (committed st2) = unfollowers (committed st)
    \<and> filter (\<lambda>r. telegram_id r \<noteq> u) (telegram_users (committed st2)) =
        filter (\<lambda>r. telegram_id r \<noteq> u) users
    \<and> get_language u None st2 = (fst (get_language u None st), st2)
    \<and> fst (get_notified_telegram_ids None st2) = fst (get_notified_telegram_ids None st))"
proof -
  from first_row_Some [OF fr] have h: "h < length (telegram_users (committed st))"
    and row: "telegram_users (committed st) ! h = row" and idr: "telegram_id row = u"
    by simp_all
  have n: "map telegram_id (filter is_notified
        ((telegram_users (committed st))[h := row\<lparr>instagram_id := Some a\<rparr>])) =
      map telegram_id (filter is_notified (telegram_users (committed st)))"
    using h row by (intro notified_ids_update) simp_all
  have n': "telegram_id ` {r \<in> set ((telegram_users (committed st))[h := row\<lparr>instagram_id := Some a\<rparr>]).
        is_notified r} =
      telegram_id ` {r \<in> set (telegram_users (committed st)). is_notified r}"
    using arg_cong [OF n, of set] by (simp only: notified_ids_list)
  have f: "filter (\<lambda>r. telegram_id r \<noteq> u)
        ((telegram_users (committed st))[h := row\<lparr>instagram_id := Some a\<rparr>]) =
      filter (\<lambda>r. telegram_id r \<noteq> u) (telegram_users (committed st))"
    using h row idr by (intro filter_update_other) simp_all
  from fr idr f n' show ?thesis
    by (simp add: Let_def update_instagram_id_ok get_language_ok get_notified_telegram_ids_ok
          first_row_update)
qed

lemma writers_other_users:
  assumes fr: "first_row (\<lambda>r. telegram_id r = u) (telegram_users (committed st)) = Some (h, row)"
    and v: "v \<noteq> u"
  shows "get_language v None (snd (set_language u L None st)) =
           (fst (get_language v None st), snd (set_language u L None st))
       \<and> get_instagram_id v None (snd (set_language u L None st)) =
           (fst (get_instagram_id v None st), snd (set_language u L None st))
       \<and> get_language v None (snd (update_instagram_id u a None st)) =
           (fst (get_language v None st), snd (update_instagram_id u a None st))
       \<and> get_instagram_id v None (snd (update_instagram_id u a None st)) =
           (fst (get_instagram_id v None st), snd (update_instagram_id u a None st))"
proof -
  from first_row_Some [OF fr] have h: "h < length (telegram_users (committed st))"
    and row: "telegram_users (committed st) ! h = row" and idr: "telegram_id row = u"
    by simp_all
  have o: "first_row (\<lambda>r. telegram_id r = v) ((telegram_users (committed st))[h := r']) =
      first_row (\<lambda>r. telegram_id r = v) (telegram_users (committed st))"
    if "telegram_id r' = u" for r'
    using h row idr v that by (intro first_row_update_other) simp_all
  from fr show ?thesis
    by (simp add: set_language_ok update_instagram_id_ok get_language_ok get_instagram_id_ok
          o idr)
qed

text \<open>
  C10. With the engine not failing and \<open>row\<close>, at position \<open>h\<close>, the row of \<open>u\<close> that \<^verbatim>\<open>.first()\<close>
  finds: \<^verbatim>\<open>set_language(u, L)\<close> replaces that row by itself with \<^verbatim>\<open>language\<close> \<open>L\<close>, and
  \<^verbatim>\<open>update_instagram_id(u, a)\<close> by itself with \<^verbatim>\<open>instagram_id\<close> \<open>a\<close>; every other row of
  \<^verbatim>\<open>telegram_users\<close> and the whole \<^verbatim>\<open>unfollowers\<close> table stay as they are. So the linked account
  of \<open>u\<close> (respectively the language), the notified ids, and both settings of every other user
  \<open>v\<close> read the same before and after.
\<close>

theorem settings_writers_frame:
  assumes "first_row (\<lambda>r. telegram_id r = u) (telegram_users (committed st)) = Some (h, row)"
  shows "(let users = telegram_users (committed st); st1 = snd (set_language u L None st) in
        telegram_users (committed st1) = users[h := row\<lparr>language := L\<rparr>]
      \<and> unfollowers (committed st1) = unfollowers (committed st)
      \<and> filter (\<lambda>r. telegram_id r \<noteq> u) (telegram_users (committed st1)) =
          filter (\<lambda>r. telegram_id r \<noteq> u) users
      \<and> get_instagram_id u None st1 = (fst (get_instagram_id u None st), st1)
      \<and> fst (get_notified_telegram_ids None st1) = fst (get_notified_telegram_ids None st))
   \<and> (let users = telegram_users (committed st); st2 = snd (update_instagram_id u a None st) in
        telegram_users (committed st2) = users[h := row\<lparr>instagram_id := Some a\<rparr>]
      \<and> unfollowers (committed st2) = unfollowers (committed st)
      \<and> filter (\<lambda>r. telegram_id r \<noteq> u) (telegram_users (committed st2)) =
          filter (\<lambda>r. telegram_id r \<noteq> u) users
      \<and> get_language u None st2 = (fst (get_language u None st), st2)
      \<and> fst (get_notified_telegram_ids None st2) = fst (get_notified_telegram_ids None st))
   \<and> (v \<noteq> u \<longrightarrow>
        get_language v None (snd (set_language u L None st)) =
          (fst (get_language v None st), snd (set_language u L None st))
      \<and> get_instagram_id v None (snd (set_language u L None st)) =
          (fst (get_instagram_id v None st), snd (set_language u L None st))
      \<and> get_language v None (snd (update_instagram_id u a None st)) =
          (fst (get_language v None st), snd (update_instagram_id u a None st))
      \<and> get_instagram_id v None (snd (update_instagram_id u a None st)) =
          (fst (get_instagram_id v None st), snd (update_instagram_id u a None st)))"
  using set_language_frame [OF assms, of L] update_instagram_id_frame [OF assms, of a]
    writers_other_users [OF assms, of v L a]
  by blast


theorem settings_writers_frame_witness:
  "first_row (\<lambda>r. telegram_id r = 42)
     (telegram_users (committed
        (run [(UpdateInstagramId 42 555, None), (StartNotifying 42, None),
              (UpdateInstagramId 7 1, None)] empty_storage))) =
     Some (0, \<lparr>telegram_id = 42, instagram_id = Some 555, is_notified = True, language = None\<rparr>)
   \<and> telegram_users (committed (snd (set_language 42 (Some ''en'') None
        (run [(UpdateInstagramId 42 555, None), (StartNotifying 42, None),
              (UpdateInstagramId 7 1, None)] empty_storage)))) =
     [\<lparr>telegram_id = 42, instagram_id = Some 555, is_notified = True, language = Some ''en''\<rparr>,
      \<lparr>telegram_id = 7, instagram_id = Some 1, is_notified = False, language = None\<rparr>]
   \<and> telegram_users (committed (snd (update_instagram_id 42 777 None
        (run [(UpdateInstagramId 42 555, None), (StartNotifying 42, None),
              (UpdateInstagramId 7 1, None)] empty_storage)))) =
     [\<lparr>telegram_id = 42, instagram_id = Some 777, is_notified = True, language = None\<rparr>,
      \<lparr>telegram_id = 7, instagram_id = Some 1, is_notified = False, language = None\<rparr>]"
proof -
  define W where "W = run [(UpdateInstagramId 42 555, None), (StartNotifying 42, None),
              (UpdateInstagramId 7 1, None)] empty_storage"
  have rows: "telegram_users (committed W) =
     [\<lparr>telegram_id = 42, instagram_id = Some 555, is_notified = True, language = None\<rparr>,
      \<lparr>telegram_id = 7, instagram_id = Some 1, is_notified = False, language = None\<rparr>]"
    by (simp add: W_def update_instagram_id_ok start_notifying_ok empty_storage_def
          new_TelegramUser_def)
  have fr: "first_row (\<lambda>r. telegram_id r = 42) (telegram_users (committed W)) =
     Some (0, \<lparr>telegram_id = 42, instagram_id = Some 555, is_notified = True, language = None\<rparr>)"
    by (simp add: rows)
  note t = settings_writers_frame [OF fr, where L = "Some ''en''" and a = 777, unfolded Let_def]
  from t have a: "telegram_users (committed (snd (set_language 42 (Some ''en'') None W))) =
     [\<lparr>telegram_id = 42, instagram_id = Some 555, is_notified = True, language = Some ''en''\<rparr>,
      \<lparr>telegram_id = 7, instagram_id = Some 1, is_notified = False, language = None\<rparr>]"
    by (simp add: rows)
  from t have b: "telegram_users (committed (snd (update_instagram_id 42 777 None W))) =
     [\<lparr>telegram_id = 42, instagram_id = Some 777, is_notified = True, language = None\<rparr>,
      \<lparr>telegram_id = 7, instagram_id = Some 1, is_notified = False, language = None\<rparr>]"
    by (simp add: rows)
  from fr a b show ?thesis
    unfolding W_def by blast
qed

end
